theory Spec2Isabelle
  imports Complex_Main "HOL-Library.Sublist"
begin

section \<open>Text primitives of the host language\<close>

text \<open>
  The index of \<^verbatim>\<open>src/index/fuzzy_index.py\<close> works on Python strings. A string is
  modelled as a list of \<^typ>\<open>char\<close>, each \<^typ>\<open>char\<close> read as one code point in the
  range 0..255 (Latin-1). On that range lower-casing is a map over the characters, and
  the classes \<^verbatim>\<open>\s\<close>, \<^verbatim>\<open>\w\<close> and \<^verbatim>\<open>\d\<close> of the \<^verbatim>\<open>re\<close> module are the sets
  below. Code points above 255 are outside the model.
\<close>

definition is_space :: "char \<Rightarrow> bool" where
  \<comment> \<open>\<^verbatim>\<open>str.isspace\<close>, the class \<^verbatim>\<open>\s\<close>, and what \<^verbatim>\<open>str.strip()\<close> removes\<close>
  "is_space c = (let n = (of_char c :: nat) in
     (9 \<le> n \<and> n \<le> 13) \<or> (28 \<le> n \<and> n \<le> 32) \<or> n = 133 \<or> n = 160)"

definition is_digit :: "char \<Rightarrow> bool" where
  \<comment> \<open>the class \<^verbatim>\<open>\d\<close>\<close>
  "is_digit c = (let n = (of_char c :: nat) in 48 \<le> n \<and> n \<le> 57)"

definition is_word :: "char \<Rightarrow> bool" where
  \<comment> \<open>the class \<^verbatim>\<open>\w\<close>: alphanumeric code points and the underscore\<close>
  "is_word c = (let n = (of_char c :: nat) in
     (48 \<le> n \<and> n \<le> 57) \<or> (65 \<le> n \<and> n \<le> 90) \<or> n = 95 \<or> (97 \<le> n \<and> n \<le> 122) \<or>
     n = 170 \<or> n = 178 \<or> n = 179 \<or> n = 181 \<or> n = 185 \<or> n = 186 \<or>
     (188 \<le> n \<and> n \<le> 190) \<or> (192 \<le> n \<and> n \<le> 214) \<or> (216 \<le> n \<and> n \<le> 246) \<or>
     (248 \<le> n \<and> n \<le> 255))"

definition py_lower :: "char \<Rightarrow> char" where
  \<comment> \<open>\<^verbatim>\<open>str.lower\<close> on one code point\<close>
  "py_lower c = (let n = (of_char c :: nat) in
     if (65 \<le> n \<and> n \<le> 90) \<or> (192 \<le> n \<and> n \<le> 214) \<or> (216 \<le> n \<and> n \<le> 222)
     then char_of (n + 32) else c)"

definition py_strip :: "string \<Rightarrow> string" where
  \<comment> \<open>\<^verbatim>\<open>str.strip()\<close>\<close>
  "py_strip s = rev (dropWhile is_space (rev (dropWhile is_space s)))"

text \<open>
  \<^verbatim>\<open>str.replace(old, new)\<close>: the occurrences of \<open>old\<close> are found from the left and do not
  overlap; each is replaced by \<open>new\<close>.
\<close>

function py_replace :: "string \<Rightarrow> string \<Rightarrow> string \<Rightarrow> string" where
  "py_replace old new [] = (if old = [] then new else [])"
| "py_replace old new (c # cs) =
     (if old = [] then new @ c # py_replace old new cs
      else if prefix old (c # cs) then new @ py_replace old new (drop (length old) (c # cs))
      else c # py_replace old new cs)"
  by pat_completeness auto
termination
  by (relation "measure (\<lambda>(old, new, s). length s)") auto

text \<open>\<^verbatim>\<open>str(n)\<close> of an integer: its decimal numeral.\<close>

function nat_digits :: "nat \<Rightarrow> string" where
  "nat_digits n = (if n < 10 then [char_of (48 + n)]
                   else nat_digits (n div 10) @ [char_of (48 + n mod 10)])"
  by pat_completeness auto
termination
  by (relation "measure id") auto

definition show_int :: "int \<Rightarrow> string" where
  "show_int n = (if n < 0 then CHR ''-'' # nat_digits (nat (- n)) else nat_digits (nat n))"

text \<open>
  \<^verbatim>\<open>int(s)\<close> of a string, base 10: surrounding whitespace is dropped, then an optional
  sign, then decimal digits in which single underscores may separate digits. Anything
  else raises \<^verbatim>\<open>ValueError\<close>, which is \<open>None\<close> here. So does a numeral of more than
  \<open>max_str_digits\<close> digits: the interpreter (CPython 3.11, and the later releases of 3.7
  to 3.10) refuses the conversion between an integer and such a numeral, in both directions.
\<close>

definition max_str_digits :: int where
  "max_str_digits = 4300"

fun digit_run :: "string \<Rightarrow> bool" where
  "digit_run [] = False"
| "digit_run [c] = is_digit c"
| "digit_run (c # d # cs) =
     (is_digit c \<and> (if d = CHR ''_'' then digit_run cs else digit_run (d # cs)))"

definition digits_value :: "string \<Rightarrow> nat" where
  "digits_value ds = foldl (\<lambda>a c. 10 * a + (of_char c - 48)) 0 (filter (\<lambda>c. c \<noteq> CHR ''_'') ds)"

definition py_int :: "string \<Rightarrow> int option" where
  "py_int s =
     (let t = py_strip s;
          neg = (t \<noteq> [] \<and> hd t = CHR ''-'');
          body = (if t \<noteq> [] \<and> (hd t = CHR ''-'' \<or> hd t = CHR ''+'') then tl t else t)
      in if digit_run body \<and> int (length (filter is_digit body)) \<le> max_str_digits
         then Some (if neg then - int (digits_value body) else int (digits_value body))
         else None)"

section \<open>Normalization\<close>

definition keep_char :: "char \<Rightarrow> bool" where
  \<comment> \<open>the characters outside the class \<^verbatim>\<open>[^\w\s+#/.-]\<close>\<close>
  "keep_char c = (is_word c \<or> is_space c \<or> c = CHR ''+'' \<or> c = CHR ''#'' \<or> c = CHR ''/'' \<or>
                  c = CHR ''.'' \<or> c = CHR ''-'')"

definition strip_punct :: "string \<Rightarrow> string" where
  \<comment> \<open>\<^verbatim>\<open>re.sub(r"[^\w\s+#/.-]", " ", s)\<close>\<close>
  "strip_punct s = map (\<lambda>c. if keep_char c then c else CHR '' '') s"

function collapse_ws :: "string \<Rightarrow> string" where
  \<comment> \<open>\<^verbatim>\<open>re.sub(r"\s+", " ", s)\<close>: every maximal run of whitespace becomes one space\<close>
  "collapse_ws [] = []"
| "collapse_ws (c # cs) =
     (if is_space c then CHR '' '' # collapse_ws (dropWhile is_space cs)
      else c # collapse_ws cs)"
  by pat_completeness auto
termination
  by (relation "measure length") (auto simp: less_Suc_eq_le length_dropWhile_le)

definition norm_str :: "string \<Rightarrow> string" where
  \<comment> \<open>\<^verbatim>\<open>norm\<close> on a string: \<^verbatim>\<open>str(s)\<close> is \<open>s\<close> and the \<^verbatim>\<open>None\<close> branch does not arise\<close>
  "norm_str s = py_strip (collapse_ws (strip_punct (map py_lower s)))"

definition compact_key :: "string \<Rightarrow> string" where
  \<comment> \<open>\<^verbatim>\<open>.replace(" major","").replace(" minor","m")\<close>, written out twice in the source\<close>
  "compact_key s = py_replace '' minor'' ''m'' (py_replace '' major'' '''' s)"

definition normalize_key :: "string \<Rightarrow> string" where
  \<comment> \<open>the expression that computes \<^verbatim>\<open>key_n\<close> in \<^verbatim>\<open>Song.normalized\<close>\<close>
  "normalize_key s = compact_key (norm_str s)"

section \<open>Errors\<close>

text \<open>
  Every exception that the code can raise is a value. \<open>OutsideModel\<close> is not an
  exception of the program: it marks the inputs that the embedding does not describe.
\<close>

datatype error = IndexError | KeyError | TypeError | ValueError | EncodeError | DecodeError
  | IndexNotFound string | LoadFailed error | SearchFailed error | OutsideModel

definition bind_err :: "error + 'a \<Rightarrow> ('a \<Rightarrow> error + 'c) \<Rightarrow> error + 'c" where
  "bind_err r f = (case r of Inl e \<Rightarrow> Inl e | Inr x \<Rightarrow> f x)"

fun map_err :: "('a \<Rightarrow> error + 'c) \<Rightarrow> 'a list \<Rightarrow> error + 'c list" where
  "map_err f [] = Inr []"
| "map_err f (x # xs) = bind_err (f x) (\<lambda>y. bind_err (map_err f xs) (\<lambda>ys. Inr (y # ys)))"

section \<open>Track records\<close>

text \<open>
  The fields of a \<^verbatim>\<open>Song\<close> are annotated \<^verbatim>\<open>str\<close> and \<^verbatim>\<open>Any\<close>, and the annotations are
  not enforced: \<^verbatim>\<open>load_songs\<close> stores what the catalog holds, which for a CSV catalog is a
  float NaN in every empty cell, and \<^verbatim>\<open>from_bytes\<close> stores what the decoder returns. A
  field holds a scalar: \<^verbatim>\<open>None\<close>, a boolean, an integer, a float or a string. A finite
  float is given by its \<^verbatim>\<open>repr\<close>, which determines it. Lists and dictionaries as field
  values are outside the model.
\<close>

datatype pyfloat = NaN | PosInf | NegInf | Finite string

datatype pyval = PNone | PBool bool | PInt int | PFloat pyfloat | PStr string

definition float_str :: "pyfloat \<Rightarrow> string" where
  "float_str f = (case f of NaN \<Rightarrow> ''nan'' | PosInf \<Rightarrow> ''inf'' | NegInf \<Rightarrow> ''-inf''
                  | Finite r \<Rightarrow> r)"

definition int_digits :: "int \<Rightarrow> int" where
  \<comment> \<open>the number of digits of the decimal numeral\<close>
  "int_digits n = int (length (nat_digits (nat \<bar>n\<bar>)))"

definition py_str :: "pyval \<Rightarrow> error + string" where
  \<comment> \<open>\<^verbatim>\<open>str(x)\<close>\<close>
  "py_str x = (case x of
       PNone \<Rightarrow> Inr ''None''
     | PBool b \<Rightarrow> Inr (if b then ''True'' else ''False'')
     | PInt n \<Rightarrow> if int_digits n \<le> max_str_digits then Inr (show_int n) else Inl ValueError
     | PFloat f \<Rightarrow> Inr (float_str f)
     | PStr s \<Rightarrow> Inr s)"

definition norm_val :: "pyval \<Rightarrow> error + string" where
  \<comment> \<open>\<^verbatim>\<open>norm\<close> on a field value: \<^verbatim>\<open>None\<close> gives the empty string, anything else goes
      through \<^verbatim>\<open>str\<close>\<close>
  "norm_val x = (case x of PNone \<Rightarrow> Inr [] | _ \<Rightarrow> bind_err (py_str x) (\<lambda>s. Inr (norm_str s)))"

definition to_int :: "pyval \<Rightarrow> int option" where
  \<comment> \<open>\<^verbatim>\<open>try: return int(str(x).strip())  except Exception: return None\<close>\<close>
  "to_int x = (case py_str x of Inl e \<Rightarrow> None | Inr s \<Rightarrow> py_int (py_strip s))"

record Song =
  title :: pyval
  artist :: pyval
  album :: pyval
  key :: pyval
  bpm :: pyval
  path :: pyval

record Norm =
  title_n :: string
  artist_n :: string
  album_n :: string
  key_n :: string
  bpm_n :: string
  path_n :: string

definition bpm_text :: "pyval \<Rightarrow> string" where
  \<comment> \<open>\<^verbatim>\<open>str(to_int(self.bpm) or "")\<close>: \<^verbatim>\<open>or\<close> takes its right operand when the left
      one is \<^verbatim>\<open>None\<close> or \<^verbatim>\<open>0\<close>; an integer that \<^verbatim>\<open>int\<close> has returned is within the
      limit of \<^verbatim>\<open>str\<close>\<close>
  "bpm_text b = (case to_int b of None \<Rightarrow> []
                 | Some n \<Rightarrow> if n = 0 then [] else show_int n)"

definition normalized :: "Song \<Rightarrow> error + Norm" where
  "normalized s =
     bind_err (norm_val (title s)) (\<lambda>t.
     bind_err (norm_val (artist s)) (\<lambda>a.
     bind_err (norm_val (album s)) (\<lambda>al.
     bind_err (norm_val (key s)) (\<lambda>k.
     bind_err (norm_val (path s)) (\<lambda>p.
     Inr \<lparr> title_n = t, artist_n = a, album_n = al, key_n = compact_key k,
           bpm_n = bpm_text (bpm s), path_n = p \<rparr>)))))"

section \<open>The regular expressions of the query parser\<close>

text \<open>
  A matcher tries one pattern at one position: it gets the character before the position
  (for \<^verbatim>\<open>\b\<close>) and the text from the position on, and returns the captured groups and
  the length of the match. The patterns of \<^verbatim>\<open>parse_query\<close> never match the empty string.
  \<open>re_scan\<close> walks the text as \<^verbatim>\<open>re.findall\<close> and \<^verbatim>\<open>re.sub\<close> do: leftmost match
  first, then on from the end of that match.
\<close>

type_synonym 'g matcher = "char option \<Rightarrow> string \<Rightarrow> ('g \<times> nat) option"

datatype 'g piece = Lit char | Hit 'g

fun re_scan :: "'g matcher \<Rightarrow> char option \<Rightarrow> nat \<Rightarrow> string \<Rightarrow> 'g piece list" where
  "re_scan m prev skip [] = []"
| "re_scan m prev skip (c # cs) =
     (if 0 < skip then re_scan m (Some c) (skip - 1) cs
      else case m prev (c # cs) of
             None \<Rightarrow> Lit c # re_scan m (Some c) 0 cs
           | Some (g, n) \<Rightarrow> Hit g # re_scan m (Some c) (n - 1) cs)"

fun hits :: "'g piece list \<Rightarrow> 'g list" where
  "hits [] = []"
| "hits (Lit c # ps) = hits ps"
| "hits (Hit g # ps) = g # hits ps"

fun lits :: "'g piece list \<Rightarrow> string" where
  "lits [] = []"
| "lits (Lit c # ps) = c # lits ps"
| "lits (Hit g # ps) = lits ps"

definition re_findall :: "'g matcher \<Rightarrow> string \<Rightarrow> 'g list" where
  "re_findall m s = hits (re_scan m None 0 s)"

definition re_search :: "'g matcher \<Rightarrow> string \<Rightarrow> 'g option" where
  "re_search m s = (case re_findall m s of [] \<Rightarrow> None | g # _ \<Rightarrow> Some g)"

definition re_sub :: "'g matcher \<Rightarrow> string \<Rightarrow> string" where
  \<comment> \<open>\<^verbatim>\<open>re.sub(pattern, "", s)\<close>\<close>
  "re_sub m s = lits (re_scan m None 0 s)"

definition quote :: char where
  "quote = CHR 0x27"

definition at_word_start :: "char option \<Rightarrow> bool" where
  \<comment> \<open>\<^verbatim>\<open>\b\<close> in front of a letter: no word character before it\<close>
  "at_word_start prev = (case prev of None \<Rightarrow> True | Some p \<Rightarrow> \<not> is_word p)"

fun lit :: "string \<Rightarrow> string \<Rightarrow> string option" where
  "lit [] s = Some s"
| "lit (l # ls) [] = None"
| "lit (l # ls) (c # cs) = (if c = l then lit ls cs else None)"

fun ci_lit :: "string \<Rightarrow> string \<Rightarrow> string option" where
  \<comment> \<open>a lower-case literal under \<^verbatim>\<open>re.I\<close>\<close>
  "ci_lit [] s = Some s"
| "ci_lit (l # ls) [] = None"
| "ci_lit (l # ls) (c # cs) = (if py_lower c = l then ci_lit ls cs else None)"

fun first_alt :: "string list \<Rightarrow> string \<Rightarrow> (string \<times> string) option" where
  \<comment> \<open>an alternation of literals: the text matched and the rest\<close>
  "first_alt [] s = None"
| "first_alt (l # ls) s =
     (case ci_lit l s of Some r \<Rightarrow> Some (take (length l) s, r) | None \<Rightarrow> first_alt ls s)"

definition skip_ws :: "string \<Rightarrow> string" where
  \<comment> \<open>\<^verbatim>\<open>\s*\<close>\<close>
  "skip_ws s = dropWhile is_space s"

definition digits1 :: "string \<Rightarrow> (string \<times> string) option" where
  \<comment> \<open>\<^verbatim>\<open>(\d+)\<close>\<close>
  "digits1 s = (let d = takeWhile is_digit s in
                if d = [] then None else Some (d, dropWhile is_digit s))"

definition m_bpm_range :: "(string \<times> string) matcher" where
  \<comment> \<open>\<^verbatim>\<open>\bbpm\s*:\s*(\d+)\s*\.\.\s*(\d+)\<close> with \<^verbatim>\<open>re.I\<close>\<close>
  "m_bpm_range prev s =
     (if at_word_start prev then
        Option.bind (ci_lit ''bpm'' s) (\<lambda>r1.
        Option.bind (lit '':'' (skip_ws r1)) (\<lambda>r2.
        Option.bind (digits1 (skip_ws r2)) (\<lambda>(lo, r3).
        Option.bind (lit ''..'' (skip_ws r3)) (\<lambda>r4.
        Option.bind (digits1 (skip_ws r4)) (\<lambda>(hi, r5).
        Some ((lo, hi), length s - length r5))))))
      else None)"

definition bare_value :: "string \<Rightarrow> string option" where
  \<comment> \<open>\<^verbatim>\<open>[^\s][^']*\<close>\<close>
  "bare_value s = (case s of [] \<Rightarrow> None
     | c # cs \<Rightarrow> if is_space c then None else Some (c # takeWhile (\<lambda>x. x \<noteq> quote) cs))"

definition quoted_value :: "string \<Rightarrow> string option" where
  \<comment> \<open>\<^verbatim>\<open>'[^']*'\<close>\<close>
  "quoted_value s = (case s of [] \<Rightarrow> None
     | c # cs \<Rightarrow> if c = quote \<and> dropWhile (\<lambda>x. x \<noteq> quote) cs \<noteq> []
                 then Some (c # takeWhile (\<lambda>x. x \<noteq> quote) cs @ [quote]) else None)"

definition pair_value :: "string \<Rightarrow> string option" where
  \<comment> \<open>\<^verbatim>\<open>([^\s][^']*|'[^']*')\<close>: the first alternative that matches\<close>
  "pair_value s = (case bare_value s of Some v \<Rightarrow> Some v | None \<Rightarrow> quoted_value s)"

definition m_pair :: "(string \<times> string) matcher" where
  \<comment> \<open>\<^verbatim>\<open>\b(title|artist|album|key|bpm)\s*:\s*([^\s][^']*|'[^']*')\<close> with \<^verbatim>\<open>re.I\<close>\<close>
  "m_pair prev s =
     (if at_word_start prev then
        Option.bind (first_alt [''title'', ''artist'', ''album'', ''key'', ''bpm''] s) (\<lambda>(f, r1).
        Option.bind (lit '':'' (skip_ws r1)) (\<lambda>r2.
        Option.bind (pair_value (skip_ws r2)) (\<lambda>v.
        Some ((f, v), length s - (length (skip_ws r2) - length v)))))
      else None)"

definition m_phrase :: "string matcher" where
  \<comment> \<open>\<^verbatim>\<open>'([^']+)'\<close>\<close>
  "m_phrase prev s = (case s of [] \<Rightarrow> None
     | c # cs \<Rightarrow>
         let body = takeWhile (\<lambda>x. x \<noteq> quote) cs in
         if c = quote \<and> body \<noteq> [] \<and> dropWhile (\<lambda>x. x \<noteq> quote) cs \<noteq> []
         then Some (body, length body + 2) else None)"

section \<open>The query parser\<close>

text \<open>
  The \<^verbatim>\<open>filters\<close> dictionary has at most the keys \<^verbatim>\<open>title\<close>, \<^verbatim>\<open>artist\<close>,
  \<^verbatim>\<open>album\<close>, \<^verbatim>\<open>key\<close>, \<^verbatim>\<open>bpm\<close> and \<^verbatim>\<open>bpm_range\<close>; it is a record of optional
  entries, \<open>None\<close> for an absent key.
\<close>

record Filters =
  f_title :: "string option"
  f_artist :: "string option"
  f_album :: "string option"
  f_key :: "string option"
  f_bpm :: "string option"
  f_bpm_range :: "(int \<times> int) option"

definition no_filters :: Filters where
  "no_filters = \<lparr> f_title = None, f_artist = None, f_album = None, f_key = None,
                   f_bpm = None, f_bpm_range = None \<rparr>"

definition set_filter :: "string \<Rightarrow> string \<Rightarrow> Filters \<Rightarrow> Filters" where
  "set_filter k v F =
     (if k = ''title'' then F\<lparr>f_title := Some v\<rparr>
      else if k = ''artist'' then F\<lparr>f_artist := Some v\<rparr>
      else if k = ''album'' then F\<lparr>f_album := Some v\<rparr>
      else if k = ''key'' then F\<lparr>f_key := Some v\<rparr>
      else if k = ''bpm'' then F\<lparr>f_bpm := Some v\<rparr>
      else F)"

definition py_unquote :: "string \<Rightarrow> string" where
  \<comment> \<open>\<^verbatim>\<open>if v.startswith("'") and v.endswith("'"): v = v[1:-1]\<close>\<close>
  "py_unquote v = (if v \<noteq> [] \<and> hd v = quote \<and> last v = quote then butlast (tl v) else v)"

definition add_pair :: "Filters \<Rightarrow> string \<times> string \<Rightarrow> Filters" where
  \<comment> \<open>one turn of the loop over \<^verbatim>\<open>pairs\<close>\<close>
  "add_pair F p =
     (let v = py_unquote (py_strip (snd p)); k = map py_lower (fst p)
      in set_filter k (if k \<noteq> ''bpm'' then norm_str v else v) F)"

definition parse_query :: "string \<Rightarrow> error + string \<times> string option \<times> Filters" where
  \<comment> \<open>the two calls of \<^verbatim>\<open>int\<close> on the bounds of a range raise \<^verbatim>\<open>ValueError\<close> on a
      numeral beyond the digit limit\<close>
  "parse_query query =
     bind_err
       (case re_search m_bpm_range query of
          Some (lo, hi) \<Rightarrow>
            (case (py_int lo, py_int hi) of
               (Some a, Some b) \<Rightarrow>
                 Inr (no_filters\<lparr>f_bpm_range := Some (a, b)\<rparr>, re_sub m_bpm_range query)
             | _ \<Rightarrow> Inl ValueError)
        | None \<Rightarrow> Inr (no_filters, query))
       (\<lambda>(filters1, query1). Inr
     (let pairs = re_findall m_pair query1;
          filters2 = foldl add_pair filters1 pairs;
          query2 = (if pairs \<noteq> [] then re_sub m_pair query1 else query1);
          (phrase, query3) =
            (case re_search m_phrase query2 of
               Some body \<Rightarrow> (Some (norm_str body), re_sub m_phrase query2)
             | None \<Rightarrow> (None, query2))
      in (norm_str query3, phrase, filters2)))"

section \<open>The index\<close>

record SongIndex =
  items :: "Song list"
  norms :: "Norm list"
  search_texts :: "string list"

definition coarse_text :: "Norm \<Rightarrow> string" where
  \<comment> \<open>\<^verbatim>\<open>" | ".join([n["title_n"], n["artist_n"], n["album_n"]])\<close>\<close>
  "coarse_text n = title_n n @ '' | '' @ artist_n n @ '' | '' @ album_n n"

definition build :: "Song list \<Rightarrow> error + SongIndex" where
  \<comment> \<open>\<^verbatim>\<open>SongIndex.__init__\<close>: the loop appends one entry per song to both lists; it
      raises what \<^verbatim>\<open>normalized\<close> raises\<close>
  "build its = bind_err (map_err normalized its) (\<lambda>ns.
                 Inr \<lparr> items = its, norms = ns, search_texts = map coarse_text ns \<rparr>)"


section \<open>Filtering\<close>

definition candidate_ok :: "Norm \<Rightarrow> string option \<Rightarrow> Filters \<Rightarrow> bool" where
  \<comment> \<open>the flag \<^verbatim>\<open>ok\<close> of \<^verbatim>\<open>filter_candidates\<close> at the end of one turn of its loop;
      \<^verbatim>\<open>a in b\<close> on strings is \<open>sublist a b\<close>\<close>
  "candidate_ok n phrase F =
     ((case phrase of None \<Rightarrow> True
       | Some p \<Rightarrow> p = [] \<or> sublist p (title_n n) \<or> sublist p (artist_n n)) \<and>
      (case f_artist F of None \<Rightarrow> True | Some v \<Rightarrow> sublist v (artist_n n)) \<and>
      (case f_title F of None \<Rightarrow> True | Some v \<Rightarrow> sublist v (title_n n)) \<and>
      (case f_album F of None \<Rightarrow> True | Some v \<Rightarrow> sublist v (album_n n)) \<and>
      (case f_key F of None \<Rightarrow> True | Some v \<Rightarrow> sublist (compact_key v) (key_n n)) \<and>
      (case f_bpm F of None \<Rightarrow> True | Some v \<Rightarrow> v = bpm_n n) \<and>
      (case f_bpm_range F of None \<Rightarrow> True
       | Some (lo, hi) \<Rightarrow>
           (case to_int (PStr (bpm_n n)) of None \<Rightarrow> False | Some b \<Rightarrow> lo \<le> b \<and> b \<le> hi)))"

definition filter_candidates :: "SongIndex \<Rightarrow> string option \<Rightarrow> Filters \<Rightarrow> nat list" where
  "filter_candidates ix phrase F =
     map fst (filter (\<lambda>(i, n). candidate_ok n phrase F) (enumerate 0 (norms ix)))"

section \<open>Binary floating point\<close>

text \<open>
  Scores are Python floats. A finite float is the rational number it denotes, and an
  operation returns the float nearest to the exact result, a tie going to the even
  mantissa (the default rounding of IEEE 754 binary64, 53 bits of mantissa). Overflow and
  the subnormal range are not modelled: the numbers of this program lie between \<open>0\<close> and
  a little above \<open>100\<close>, or are thresholds given by the caller.
\<close>

definition round_half_even :: "rat \<Rightarrow> int" where
  "round_half_even x =
     (let f = \<lfloor>x\<rfloor>; d = x - of_int f
      in if d < 1 / 2 then f else if 1 / 2 < d then f + 1 else if even f then f else f + 1)"

function halvings :: "rat \<Rightarrow> nat" where
  \<comment> \<open>for \<open>1 \<le> x\<close>: the \<open>k\<close> with \<open>2 ^ k \<le> x < 2 ^ (k + 1)\<close>\<close>
  "halvings x = (if x < 2 then 0 else Suc (halvings (x / 2)))"
  by pat_completeness auto
termination
  by (relation "measure (\<lambda>x. nat \<lfloor>x\<rfloor>)") (auto simp: not_less, linarith)

function doublings :: "rat \<Rightarrow> nat" where
  \<comment> \<open>for \<open>0 < x < 1\<close>: the \<open>k\<close> with \<open>1 \<le> x * 2 ^ k < 2\<close>\<close>
  "doublings x = (if x \<le> 0 \<or> 1 \<le> x then 0 else Suc (doublings (2 * x)))"
  by pat_completeness auto
termination
proof (relation "measure (\<lambda>x. nat \<lfloor>1 / x\<rfloor>)")
  show "wf (measure (\<lambda>x::rat. nat \<lfloor>1 / x\<rfloor>))" by simp
next
  fix x :: rat
  assume "\<not> (x \<le> 0 \<or> 1 \<le> x)"
  then have x: "0 < x" "x < 1" by auto
  define y where "y = 1 / x"
  have y: "1 < y" using x by (simp add: y_def)
  have h: "1 / (2 * x) = y / 2" by (simp add: y_def)
  have a: "of_int \<lfloor>y / 2\<rfloor> \<le> y / 2" by (rule of_int_floor_le)
  have b: "y < of_int \<lfloor>y\<rfloor> + 1" by linarith
  have c: "1 \<le> \<lfloor>y\<rfloor>" using y by linarith
  from a b have "(of_int (2 * \<lfloor>y / 2\<rfloor>) :: rat) < of_int (\<lfloor>y\<rfloor> + 1)" by simp
  then have "2 * \<lfloor>y / 2\<rfloor> < \<lfloor>y\<rfloor> + 1" by (simp only: of_int_less_iff)
  with c have "\<lfloor>y / 2\<rfloor> < \<lfloor>y\<rfloor>" by linarith
  with c show "(2 * x, x) \<in> measure (\<lambda>x. nat \<lfloor>1 / x\<rfloor>)"
    by (simp add: h y_def [symmetric])
qed

definition ulp :: "rat \<Rightarrow> rat" where
  \<comment> \<open>for \<open>0 < x\<close>: the distance between two neighbouring floats in the binade of \<open>x\<close>\<close>
  "ulp x = (if 1 \<le> x then 2 ^ halvings x else 1 / 2 ^ doublings x) / 2 ^ 52"

definition fl_pos :: "rat \<Rightarrow> rat" where
  "fl_pos x = of_int (round_half_even (x / ulp x)) * ulp x"

definition fl :: "rat \<Rightarrow> rat" where
  \<comment> \<open>the float nearest to \<open>x\<close>\<close>
  "fl x = (if x = 0 then 0 else if 0 < x then fl_pos x else - fl_pos (- x))"

definition fmul :: "rat \<Rightarrow> rat \<Rightarrow> rat" where
  "fmul a b = fl (a * b)"

definition fadd :: "rat \<Rightarrow> rat \<Rightarrow> rat" where
  "fadd a b = fl (a + b)"

section \<open>Scoring and ranking\<close>

text \<open>
  \<^verbatim>\<open>fuzz.WRatio\<close> and \<^verbatim>\<open>process.extract\<close> belong to the rapidfuzz library. The
  similarity metric is a parameter \<open>W\<close> of everything that scores; its values are floats.
\<close>

type_synonym scorer = "string \<Rightarrow> string \<Rightarrow> rat"

definition field_score :: "scorer \<Rightarrow> string \<Rightarrow> string \<Rightarrow> rat" where
  \<comment> \<open>\<^verbatim>\<open>fuzz.WRatio(q, n[f]) if n[f] else 0\<close>\<close>
  "field_score W q t = (if t \<noteq> [] then W q t else 0)"

definition score :: "scorer \<Rightarrow> SongIndex \<Rightarrow> string \<Rightarrow> nat \<Rightarrow> rat" where
  \<comment> \<open>\<^verbatim>\<open>w_title*s_title + w_artist*s_artist + w_album*s_album\<close> with the literals
      \<^verbatim>\<open>0.55\<close>, \<^verbatim>\<open>0.4\<close> and \<^verbatim>\<open>0.05\<close>; called by \<^verbatim>\<open>search\<close> only at positions
      inside \<^verbatim>\<open>norms\<close>\<close>
  "score W ix q i =
     (let n = norms ix ! i
      in fadd (fadd (fmul (fl (55 / 100)) (field_score W q (title_n n)))
                    (fmul (fl (4 / 10)) (field_score W q (artist_n n))))
              (fmul (fl (5 / 100)) (field_score W q (album_n n))))"

definition py_round2 :: "rat \<Rightarrow> rat" where
  \<comment> \<open>\<^verbatim>\<open>round(s, 2)\<close>: the exact value is rounded to two decimals, a tie going to the
      even digit, and the float nearest to that decimal is returned\<close>
  "py_round2 s = fl (of_int (round_half_even (s * 100)) / 100)"

definition py_slice_to :: "int \<Rightarrow> 'a list \<Rightarrow> 'a list" where
  \<comment> \<open>\<^verbatim>\<open>xs[:k]\<close>; a negative \<open>k\<close> counts from the end\<close>
  "py_slice_to k xs = (if 0 \<le> k then take (nat k) xs else take (length xs - nat (- k)) xs)"

definition py_sort_desc :: "('a \<Rightarrow> rat) \<Rightarrow> 'a list \<Rightarrow> 'a list" where
  \<comment> \<open>\<^verbatim>\<open>xs.sort(key=f, reverse=True)\<close>: the list is reversed, sorted by a stable sort
      and reversed again\<close>
  "py_sort_desc f xs = rev (sort_key f (rev xs))"

definition process_extract :: "scorer \<Rightarrow> string \<Rightarrow> string list \<Rightarrow> int \<Rightarrow> nat list" where
  \<comment> \<open>the positions returned by \<^verbatim>\<open>process.extract(q, texts, scorer=W, limit=k)\<close>: the
      \<open>k\<close> best by score, equal scores in ascending position\<close>
  "process_extract W q texts k =
     map fst (py_slice_to k (py_sort_desc snd (map (\<lambda>(i, t). (i, W q t)) (enumerate 0 texts))))"

fun collect :: "Song list \<Rightarrow> (nat \<times> rat) list \<Rightarrow> error + (Song \<times> rat) list" where
  \<comment> \<open>the loop that builds \<^verbatim>\<open>out\<close>; \<^verbatim>\<open>self.items[i]\<close> raises outside the list\<close>
  "collect its [] = Inr []"
| "collect its ((i, s) # r) =
     (if i < length its
      then (case collect its r of Inl e \<Rightarrow> Inl e
            | Inr out \<Rightarrow> Inr ((its ! i, py_round2 s) # out))
      else Inl IndexError)"

type_synonym parsed = "string \<times> string option \<times> Filters"

definition candidates :: "scorer \<Rightarrow> SongIndex \<Rightarrow> parsed \<Rightarrow> int \<Rightarrow> nat list" where
  \<comment> \<open>steps 1 and 2 of \<^verbatim>\<open>search\<close>, from the parsed query\<close>
  "candidates W ix pq limit =
     (let (q_free, phrase, filters) = pq;
          cand_idx = (if q_free \<noteq> []
                      then process_extract W q_free (search_texts ix) (max 100 (limit * 10))
                      else [0 ..< length (items ix)])
      in filter (\<lambda>i. i \<in> set (filter_candidates ix phrase filters)) cand_idx)"

definition scored :: "scorer \<Rightarrow> SongIndex \<Rightarrow> parsed \<Rightarrow> int \<Rightarrow> rat \<Rightarrow> (nat \<times> rat) list" where
  \<comment> \<open>the list \<^verbatim>\<open>scored\<close> of step 3 before it is sorted\<close>
  "scored W ix pq limit threshold =
     (let q_free = fst pq
      in filter (\<lambda>(i, s). threshold \<le> s)
           (map (\<lambda>i. (i, score W ix (if q_free \<noteq> [] then q_free else title_n (norms ix ! i)) i))
                (candidates W ix pq limit)))"

definition ranked :: "scorer \<Rightarrow> SongIndex \<Rightarrow> parsed \<Rightarrow> int \<Rightarrow> rat \<Rightarrow> (nat \<times> rat) list" where
  \<comment> \<open>\<^verbatim>\<open>scored[:limit]\<close> after the sort\<close>
  "ranked W ix pq limit threshold =
     py_slice_to limit (py_sort_desc snd (scored W ix pq limit threshold))"

definition search ::
  "scorer \<Rightarrow> SongIndex \<Rightarrow> string \<Rightarrow> int \<Rightarrow> rat \<Rightarrow> error + (Song \<times> rat) list" where
  "search W ix query limit threshold =
     bind_err (parse_query query) (\<lambda>pq. collect (items ix) (ranked W ix pq limit threshold))"

section \<open>Persistence\<close>

text \<open>
  \<^verbatim>\<open>to_bytes\<close> hands one dictionary to the JSON encoder and \<^verbatim>\<open>from_bytes\<close> reads the
  decoder's result. The codec is \<^verbatim>\<open>orjson\<close> where that library is installed and the
  standard \<^verbatim>\<open>json\<close> otherwise; neither is part of the repository, and what is said of
  them here is their documented behaviour. A JSON text is identified with the tree of
  values it spells, so that both libraries read back the tree they wrote. They differ on
  the scalars they accept:

    \<^item> \<^verbatim>\<open>orjson.dumps\<close> writes \<^verbatim>\<open>null\<close> for a float that is NaN or infinite, and raises on
      an integer outside \<open>-2^63 .. 2^64 - 1\<close>; \<^verbatim>\<open>orjson.loads\<close> refuses the tokens
      \<^verbatim>\<open>NaN\<close> and \<^verbatim>\<open>Infinity\<close>. Its reading of an integer literal outside the 64-bit
      range is not modelled.
    \<^item> \<^verbatim>\<open>json.dumps\<close> writes \<^verbatim>\<open>NaN\<close>, \<^verbatim>\<open>Infinity\<close> and \<^verbatim>\<open>-Infinity\<close>, which
      \<^verbatim>\<open>json.loads\<close> reads back as those floats; both raise \<^verbatim>\<open>ValueError\<close> on an
      integer beyond the digit limit.
\<close>

datatype json = JVal pyval | JArr "json list" | JObj "(string \<times> json) list"

datatype bytes = Doc json | Malformed

datatype codec = Orjson | StdJson

definition in_64_bits :: "int \<Rightarrow> bool" where
  "in_64_bits n = (- (2 ^ 63) \<le> n \<and> n < 2 ^ 64)"

definition dumps_val :: "codec \<Rightarrow> pyval \<Rightarrow> error + pyval" where
  \<comment> \<open>the scalar that the encoder writes for a scalar\<close>
  "dumps_val c v = (case v of
       PInt n \<Rightarrow> (case c of
                    Orjson \<Rightarrow> if in_64_bits n then Inr v else Inl EncodeError
                  | StdJson \<Rightarrow> if int_digits n \<le> max_str_digits then Inr v else Inl ValueError)
     | PFloat f \<Rightarrow> (case c of
                      Orjson \<Rightarrow> (case f of Finite r \<Rightarrow> Inr v | _ \<Rightarrow> Inr PNone)
                    | StdJson \<Rightarrow> Inr v)
     | _ \<Rightarrow> Inr v)"

definition loads_val :: "codec \<Rightarrow> pyval \<Rightarrow> error + pyval" where
  \<comment> \<open>the scalar that the decoder reads from a written scalar\<close>
  "loads_val c v = (case v of
       PInt n \<Rightarrow> (case c of
                    Orjson \<Rightarrow> if in_64_bits n then Inr v else Inl OutsideModel
                  | StdJson \<Rightarrow> if int_digits n \<le> max_str_digits then Inr v else Inl ValueError)
     | PFloat f \<Rightarrow> (case c of
                      Orjson \<Rightarrow> (case f of Finite r \<Rightarrow> Inr v | _ \<Rightarrow> Inl DecodeError)
                    | StdJson \<Rightarrow> Inr v)
     | _ \<Rightarrow> Inr v)"

fun json_map :: "(pyval \<Rightarrow> error + pyval) \<Rightarrow> json \<Rightarrow> error + json"
  and json_maps :: "(pyval \<Rightarrow> error + pyval) \<Rightarrow> json list \<Rightarrow> error + json list"
  and json_mapo :: "(pyval \<Rightarrow> error + pyval) \<Rightarrow> (string \<times> json) list
                      \<Rightarrow> error + (string \<times> json) list" where
  "json_map f (JVal v) = bind_err (f v) (\<lambda>w. Inr (JVal w))"
| "json_map f (JArr xs) = bind_err (json_maps f xs) (\<lambda>ys. Inr (JArr ys))"
| "json_map f (JObj kvs) = bind_err (json_mapo f kvs) (\<lambda>ys. Inr (JObj ys))"
| "json_maps f [] = Inr []"
| "json_maps f (x # xs) =
     bind_err (json_map f x) (\<lambda>y. bind_err (json_maps f xs) (\<lambda>ys. Inr (y # ys)))"
| "json_mapo f [] = Inr []"
| "json_mapo f ((k, x) # kvs) =
     bind_err (json_map f x) (\<lambda>y. bind_err (json_mapo f kvs) (\<lambda>ys. Inr ((k, y) # ys)))"

definition jdumps :: "codec \<Rightarrow> json \<Rightarrow> error + bytes" where
  "jdumps c j = bind_err (json_map (dumps_val c) j) (\<lambda>d. Inr (Doc d))"

definition jloads :: "codec \<Rightarrow> bytes \<Rightarrow> error + json" where
  "jloads c b = (case b of Malformed \<Rightarrow> Inl DecodeError | Doc d \<Rightarrow> json_map (loads_val c) d)"

definition asdict :: "Song \<Rightarrow> json" where
  "asdict s = JObj [(''title'', JVal (title s)), (''artist'', JVal (artist s)),
                    (''album'', JVal (album s)), (''key'', JVal (key s)),
                    (''bpm'', JVal (bpm s)), (''path'', JVal (path s))]"

definition norm_json :: "Norm \<Rightarrow> json" where
  "norm_json n =
     JObj [(''title_n'', JVal (PStr (title_n n))), (''artist_n'', JVal (PStr (artist_n n))),
           (''album_n'', JVal (PStr (album_n n))), (''key_n'', JVal (PStr (key_n n))),
           (''bpm_n'', JVal (PStr (bpm_n n))), (''path_n'', JVal (PStr (path_n n)))]"

definition payload :: "SongIndex \<Rightarrow> json" where
  "payload ix = JObj [(''items'', JArr (map asdict (items ix))),
                      (''norms'', JArr (map norm_json (norms ix))),
                      (''search_texts'', JArr (map (\<lambda>t. JVal (PStr t)) (search_texts ix)))]"

definition to_bytes :: "codec \<Rightarrow> SongIndex \<Rightarrow> error + bytes" where
  "to_bytes c ix = jdumps c (payload ix)"

definition obj_get :: "string \<Rightarrow> json \<Rightarrow> error + json" where
  \<comment> \<open>\<^verbatim>\<open>p[k]\<close> for a string \<open>k\<close>; of a repeated key the decoder keeps the last value\<close>
  "obj_get k j = (case j of
       JObj kvs \<Rightarrow> (case map_of (rev kvs) k of None \<Rightarrow> Inl KeyError | Some v \<Rightarrow> Inr v)
     | _ \<Rightarrow> Inl TypeError)"

definition iter_json :: "json \<Rightarrow> error + json list" where
  \<comment> \<open>what \<^verbatim>\<open>for d in x\<close> runs through: the elements of a list, the keys of a
      dictionary, the characters of a string\<close>
  "iter_json j = (case j of
       JArr xs \<Rightarrow> Inr xs
     | JObj kvs \<Rightarrow> Inr (map (\<lambda>k. JVal (PStr k)) (remdups (map fst kvs)))
     | JVal (PStr s) \<Rightarrow> Inr (map (\<lambda>c. JVal (PStr [c])) s)
     | _ \<Rightarrow> Inl TypeError)"

definition song_fields :: "string list" where
  "song_fields = [''title'', ''artist'', ''album'', ''key'', ''bpm'', ''path'']"

definition field_or :: "string \<Rightarrow> (string \<times> json) list \<Rightarrow> error + pyval" where
  \<comment> \<open>a keyword argument of the dataclass constructor, or the field's default \<^verbatim>\<open>""\<close>\<close>
  "field_or k kvs = (case map_of (rev kvs) k of
       None \<Rightarrow> Inr (PStr [])
     | Some (JVal v) \<Rightarrow> Inr v
     | Some _ \<Rightarrow> Inl OutsideModel)"

definition song_of_json :: "json \<Rightarrow> error + Song" where
  \<comment> \<open>\<^verbatim>\<open>Song(**d)\<close>: \<open>d\<close> must be a dictionary, and a keyword that is not a field raises
      \<^verbatim>\<open>TypeError\<close>; the values are stored as they are\<close>
  "song_of_json j = (case j of
       JObj kvs \<Rightarrow>
         if list_all (\<lambda>k. k \<in> set song_fields) (map fst kvs)
         then bind_err (field_or ''title'' kvs) (\<lambda>t.
              bind_err (field_or ''artist'' kvs) (\<lambda>a.
              bind_err (field_or ''album'' kvs) (\<lambda>al.
              bind_err (field_or ''key'' kvs) (\<lambda>k.
              bind_err (field_or ''bpm'' kvs) (\<lambda>b.
              bind_err (field_or ''path'' kvs) (\<lambda>p.
              Inr \<lparr> title = t, artist = a, album = al, key = k, bpm = b, path = p \<rparr>))))))
         else Inl TypeError
     | _ \<Rightarrow> Inl TypeError)"

text \<open>
  \<^verbatim>\<open>from_bytes\<close> assigns \<^verbatim>\<open>p["norms"]\<close> and \<^verbatim>\<open>p["search_texts"]\<close> to the index
  without reading them. The index of the model holds a list of normalized records and a
  list of strings; stored values of that shape are taken over as they are, whatever the
  records are, and stored values of another shape are outside the model.
\<close>

definition as_str :: "json \<Rightarrow> error + string" where
  "as_str j = (case j of JVal (PStr s) \<Rightarrow> Inr s | _ \<Rightarrow> Inl OutsideModel)"

definition norm_field :: "string \<Rightarrow> (string \<times> json) list \<Rightarrow> error + string" where
  "norm_field k kvs = (case map_of (rev kvs) k of None \<Rightarrow> Inl OutsideModel | Some v \<Rightarrow> as_str v)"

definition norm_of_json :: "json \<Rightarrow> error + Norm" where
  "norm_of_json j = (case j of
       JObj kvs \<Rightarrow>
         bind_err (norm_field ''title_n'' kvs) (\<lambda>t.
         bind_err (norm_field ''artist_n'' kvs) (\<lambda>a.
         bind_err (norm_field ''album_n'' kvs) (\<lambda>al.
         bind_err (norm_field ''key_n'' kvs) (\<lambda>k.
         bind_err (norm_field ''bpm_n'' kvs) (\<lambda>b.
         bind_err (norm_field ''path_n'' kvs) (\<lambda>p.
         Inr \<lparr> title_n = t, artist_n = a, album_n = al, key_n = k, bpm_n = b, path_n = p \<rparr>))))))
     | _ \<Rightarrow> Inl OutsideModel)"

definition stored_list :: "(json \<Rightarrow> error + 'a) \<Rightarrow> json \<Rightarrow> error + 'a list" where
  "stored_list conv j = (case j of JArr xs \<Rightarrow> map_err conv xs | _ \<Rightarrow> Inl OutsideModel)"

definition from_bytes :: "codec \<Rightarrow> bytes \<Rightarrow> error + SongIndex" where
  "from_bytes c b =
     bind_err (jloads c b) (\<lambda>p.
     bind_err (obj_get ''items'' p) (\<lambda>raw.
     bind_err (iter_json raw) (\<lambda>ds.
     bind_err (map_err song_of_json ds) (\<lambda>its.
     bind_err (build its) (\<lambda>idx.
     bind_err (obj_get ''norms'' p) (\<lambda>ns.
     bind_err (obj_get ''search_texts'' p) (\<lambda>ts.
     bind_err (stored_list norm_of_json ns) (\<lambda>ns'.
     bind_err (stored_list as_str ts) (\<lambda>ts'.
     Inr (idx\<lparr>norms := ns', search_texts := ts'\<rparr>))))))))))"

text \<open>
  The indexes that the program can hold: the ones built from a list of records, and the
  ones read back from the bytes written for such an index. The other methods of the class
  (\<^verbatim>\<open>score\<close>, \<^verbatim>\<open>parse_query\<close>, \<^verbatim>\<open>filter_candidates\<close>, \<^verbatim>\<open>search\<close>, \<^verbatim>\<open>to_bytes\<close>)
  assign no attribute and return no index.
\<close>

inductive reachable :: "codec \<Rightarrow> Song list \<Rightarrow> SongIndex \<Rightarrow> bool"
  for c :: codec and its :: "Song list" where
  built: "build its = Inr ix \<Longrightarrow> reachable c its ix"
| loaded: "reachable c its ix \<Longrightarrow> to_bytes c ix = Inr b \<Longrightarrow> from_bytes c b = Inr ix'
           \<Longrightarrow> reachable c its ix'"

definition kept :: "codec \<Rightarrow> pyval \<Rightarrow> bool" where
  \<comment> \<open>the scalars that the codec does not replace by another one: for \<^verbatim>\<open>orjson\<close> every
      one but the floats NaN and infinity, for \<^verbatim>\<open>json\<close> every one\<close>
  "kept c v = (case v of
       PFloat (Finite r) \<Rightarrow> True
     | PFloat f \<Rightarrow> c = StdJson
     | _ \<Rightarrow> True)"

definition song_kept :: "codec \<Rightarrow> Song \<Rightarrow> bool" where
  "song_kept c s = (kept c (title s) \<and> kept c (artist s) \<and> kept c (album s) \<and>
                    kept c (key s) \<and> kept c (bpm s) \<and> kept c (path s))"

definition no_nan :: "Song \<Rightarrow> bool" where
  \<comment> \<open>NaN is the one scalar that is not equal to itself, so that a record holding it is
      not equal to the record read back even where the codec keeps it\<close>
  "no_nan s = (title s \<noteq> PFloat NaN \<and> artist s \<noteq> PFloat NaN \<and> album s \<noteq> PFloat NaN \<and>
               key s \<noteq> PFloat NaN \<and> bpm s \<noteq> PFloat NaN \<and> path s \<noteq> PFloat NaN)"

section \<open>The convenience call\<close>

text \<open>
  \<^verbatim>\<open>search_index\<close> opens the index file. The file system is a state: the contents of the
  files and the list of the paths opened so far. An error on the way to the index is
  reported as \<open>IndexNotFound\<close> when the file is missing and as \<open>LoadFailed\<close> otherwise.
\<close>

record world =
  files :: "string \<Rightarrow> bytes option"
  opened :: "string list"

datatype hit = Pair Song rat
  | Dict (d_score: rat) (d_title: pyval) (d_artist: pyval) (d_album: pyval) (d_key: pyval)
         (d_bpm: pyval) (d_path: pyval)

definition open_rb :: "world \<Rightarrow> string \<Rightarrow> world \<times> (error + bytes)" where
  "open_rb w p = (w\<lparr>opened := opened w @ [p]\<rparr>,
                  case files w p of None \<Rightarrow> Inl (IndexNotFound p) | Some b \<Rightarrow> Inr b)"

definition to_hits :: "bool \<Rightarrow> (Song \<times> rat) list \<Rightarrow> hit list" where
  "to_hits as_dict results =
     (if results = [] then []
      else if \<not> as_dict then map (\<lambda>(s, sc). Pair s sc) results
      else map (\<lambda>(s, sc). Dict sc (title s) (artist s) (album s) (key s) (bpm s) (path s))
               results)"

definition search_index ::
  "codec \<Rightarrow> scorer \<Rightarrow> world \<Rightarrow> string \<Rightarrow> int \<Rightarrow> rat \<Rightarrow> bool \<Rightarrow> string
     \<Rightarrow> world \<times> (error + hit list)" where
  "search_index c W w query limit threshold as_dict index_path =
     (if py_strip query = [] then (w, Inr [])
      else
        let (w', r) = open_rb w index_path
        in (w', case r of
                  Inl e \<Rightarrow> Inl e
                | Inr b \<Rightarrow>
                    (case from_bytes c b of
                       Inl e \<Rightarrow> Inl (LoadFailed e)
                     | Inr idx \<Rightarrow>
                         (case search W idx (py_strip query) (max 1 limit) threshold of
                            Inl e \<Rightarrow> Inl (SearchFailed e)
                          | Inr results \<Rightarrow> Inr (to_hits as_dict results)))))"

section \<open>A similarity metric to run the search with\<close>

text \<open>
  \<^verbatim>\<open>fuzz.ratio\<close> of rapidfuzz is the normalized Indel similarity
  \<open>100 * 2 * lcs / (|a| + |b|)\<close>, and \<open>0\<close> when a string is empty. \<^verbatim>\<open>fuzz.WRatio\<close> returns
  the same value on two strings without whitespace whose lengths differ by a factor below
  \<open>1.5\<close>; the examples below score such strings only.
\<close>

fun lcs :: "string \<Rightarrow> string \<Rightarrow> nat" where
  "lcs [] ys = 0"
| "lcs (x # xs) [] = 0"
| "lcs (x # xs) (y # ys) =
     (if x = y then Suc (lcs xs ys) else max (lcs (x # xs) ys) (lcs xs (y # ys)))"

definition indel_ratio :: scorer where
  "indel_ratio a b =
     (if a = [] \<or> b = [] then 0
      else fl (100 * (2 * of_nat (lcs a b)) / of_nat (length a + length b)))"

section \<open>The trailing-marker reading of key compaction\<close>

definition trailing_key :: "string \<Rightarrow> string" where
  \<comment> \<open>compaction as a rewrite of a trailing marker only: a suffix \<^verbatim>\<open>" major"\<close> is
      removed, a suffix \<^verbatim>\<open>" minor"\<close> becomes \<^verbatim>\<open>"m"\<close>\<close>
  "trailing_key t =
     (if suffix '' major'' t then take (length t - 6) t
      else if suffix '' minor'' t then take (length t - 6) t @ ''m''
      else t)"

section \<open>Example records\<close>

definition song_zero :: Song where
  "song_zero = \<lparr> title = PStr ''Intro'', artist = PStr ''Nobody'', album = PStr [],
                 key = PStr ''C major'', bpm = PInt 0, path = PStr ''intro.mp3'' \<rparr>"

definition song_am :: Song where
  "song_am = \<lparr> title = PStr ''x'', artist = PStr ''x'', album = PStr [], key = PStr ''A minor'',
               bpm = PStr [], path = PStr [] \<rparr>"

definition song_abc :: Song where
  "song_abc = \<lparr> title = PStr ''abc'', artist = PStr ''abcd'', album = PStr ''abcd'',
                key = PStr ''A minor'', bpm = PInt 120, path = PStr [] \<rparr>"

definition song_abd :: Song where
  "song_abd = \<lparr> title = PStr ''abd'', artist = PStr ''abcd'', album = PStr ''abcd'',
                key = PStr ''C major'', bpm = PInt 90, path = PStr [] \<rparr>"

definition song_nan :: Song where
  \<comment> \<open>a row of a CSV catalog whose album and bpm cells are empty\<close>
  "song_nan = \<lparr> title = PStr ''a'', artist = PStr ''b'', album = PFloat NaN, key = PStr ''C'',
                bpm = PFloat NaN, path = PStr ''a.mp3'' \<rparr>"

definition norm_abc :: Norm where
  "norm_abc = \<lparr> title_n = ''abc'', artist_n = ''abcd'', album_n = ''abcd'', key_n = ''am'',
                bpm_n = ''120'', path_n = [] \<rparr>"

definition built_abc :: SongIndex where
  "built_abc = \<lparr> items = [song_abc], norms = [norm_abc],
                 search_texts = [''abc | abcd | abcd''] \<rparr>"

definition norm_nan :: Norm where
  "norm_nan = \<lparr> title_n = ''a'', artist_n = ''b'', album_n = ''nan'', key_n = ''c'',
                bpm_n = [], path_n = ''a.mp3'' \<rparr>"

definition built_nan :: SongIndex where
  "built_nan = \<lparr> items = [song_nan], norms = [norm_nan], search_texts = [''a | b | nan''] \<rparr>"

definition loaded_nan :: SongIndex where
  "loaded_nan = \<lparr> items = [song_nan\<lparr>album := PNone, bpm := PNone\<rparr>], norms = [norm_nan],
                  search_texts = [''a | b | nan''] \<rparr>"

definition no_files :: world where
  "no_files = \<lparr> files = (\<lambda>p. None), opened = [] \<rparr>"

section \<open>Facts about the host-language primitives\<close>

lemma py_strip_blank:
  assumes "\<forall>c\<in>set s. is_space c"
  shows "py_strip s = []"
proof -
  have h: "dropWhile is_space s = []" using assms by (induction s) auto
  show ?thesis unfolding py_strip_def h by simp
qed

lemma py_sort_desc_stable:
  "filter (\<lambda>x. f x = k) (py_sort_desc f xs) = filter (\<lambda>x. f x = k) xs"
  by (simp add: py_sort_desc_def rev_filter [symmetric] sort_key_stable)

lemma py_slice_prefix: "prefix (py_slice_to k xs) xs"
  by (simp add: py_slice_to_def take_is_prefix)

lemma set_py_sort_desc: "set (py_sort_desc f xs) = set xs"
  by (simp add: py_sort_desc_def)

lemma set_py_slice: "set (py_slice_to k xs) \<subseteq> set xs"
  by (rule set_mono_prefix [OF py_slice_prefix])

lemma length_py_slice: "0 \<le> k \<Longrightarrow> length (py_slice_to k xs) \<le> nat k"
  by (simp add: py_slice_to_def)

section \<open>Persistence round trip\<close>

lemma bind_err_Inr_iff: "bind_err r f = Inr y \<longleftrightarrow> (\<exists>x. r = Inr x \<and> f x = Inr y)"
  by (cases r) (simp_all add: bind_err_def)

lemma bind_err_Inr [simp]: "bind_err (Inr x) f = f x"
  by (simp add: bind_err_def)

lemma map_err_roundtrip: "(\<And>x. f (g x) = Inr x) \<Longrightarrow> map_err f (map g xs) = Inr xs"
  by (induction xs) simp_all



lemma dumps_kept:
  assumes "dumps_val c v = Inr w" and "kept c v"
  shows "w = v \<and> loads_val c v = Inr v"
  using assms
  by (cases v; cases c)
     (auto simp: dumps_val_def loads_val_def kept_def split: if_splits pyfloat.splits)

lemma dumps_str: "dumps_val c (PStr s) = Inr (PStr s)"
  by (simp add: dumps_val_def)

lemma loads_str: "loads_val c (PStr s) = Inr (PStr s)"
  by (simp add: loads_val_def)

lemma dumps_song:
  assumes "json_map (dumps_val c) (asdict s) = Inr j" and "song_kept c s"
  shows "j = asdict s \<and> json_map (loads_val c) (asdict s) = Inr (asdict s)"
proof -
  from assms(1) obtain t a al k b p where
    d: "dumps_val c (title s) = Inr t" "dumps_val c (artist s) = Inr a"
       "dumps_val c (album s) = Inr al" "dumps_val c (key s) = Inr k"
       "dumps_val c (bpm s) = Inr b" "dumps_val c (path s) = Inr p"
    and j: "j = JObj [(''title'', JVal t), (''artist'', JVal a), (''album'', JVal al),
                      (''key'', JVal k), (''bpm'', JVal b), (''path'', JVal p)]"
    by (auto simp: asdict_def bind_err_Inr_iff)
  from assms(2) have c: "kept c (title s)" "kept c (artist s)" "kept c (album s)"
    "kept c (key s)" "kept c (bpm s)" "kept c (path s)"
    by (simp_all add: song_kept_def)
  note e = dumps_kept [OF d(1) c(1)] dumps_kept [OF d(2) c(2)] dumps_kept [OF d(3) c(3)]
    dumps_kept [OF d(4) c(4)] dumps_kept [OF d(5) c(5)] dumps_kept [OF d(6) c(6)]
  from e j show ?thesis by (simp add: asdict_def)
qed

lemma dumps_songs:
  assumes "json_maps (dumps_val c) (map asdict its) = Inr js" and "\<forall>s\<in>set its. song_kept c s"
  shows "js = map asdict its \<and> json_maps (loads_val c) (map asdict its) = Inr (map asdict its)"
  using assms
proof (induction its arbitrary: js)
  case Nil
  then show ?case by simp
next
  case (Cons s its)
  from Cons.prems(1) obtain j js' where
    a: "json_map (dumps_val c) (asdict s) = Inr j"
    and b: "json_maps (dumps_val c) (map asdict its) = Inr js'" and c: "js = j # js'"
    by (auto simp: bind_err_Inr_iff)
  from dumps_song [OF a] Cons.prems(2) have d: "j = asdict s"
    "json_map (loads_val c) (asdict s) = Inr (asdict s)" by simp_all
  from Cons.IH [OF b] Cons.prems(2) have e: "js' = map asdict its"
    "json_maps (loads_val c) (map asdict its) = Inr (map asdict its)" by simp_all
  from c d e show ?case by simp
qed

lemma map_norm_json:
  "(\<And>s. f (PStr s) = Inr (PStr s)) \<Longrightarrow> json_maps f (map norm_json ns) = Inr (map norm_json ns)"
  by (induction ns) (simp_all add: norm_json_def)

lemma map_texts:
  "(\<And>s. f (PStr s) = Inr (PStr s)) \<Longrightarrow>
   json_maps f (map (\<lambda>t. JVal (PStr t)) ts) = Inr (map (\<lambda>t. JVal (PStr t)) ts)"
  by (induction ts) simp_all

lemma to_bytes_kept:
  assumes "to_bytes c ix = Inr b" and "\<forall>s\<in>set (items ix). song_kept c s"
  shows "b = Doc (payload ix) \<and> jloads c b = Inr (payload ix)"
proof -
  from assms(1) obtain js where
    a: "json_maps (dumps_val c) (map asdict (items ix)) = Inr js"
    by (auto simp: to_bytes_def jdumps_def payload_def bind_err_Inr_iff)
  note s = dumps_songs [OF a assms(2)]
  note n = map_norm_json [of "dumps_val c", OF dumps_str] map_norm_json [of "loads_val c", OF loads_str]
  note t = map_texts [of "dumps_val c", OF dumps_str] map_texts [of "loads_val c", OF loads_str]
  from assms(1) a s n t have b: "b = Doc (payload ix)"
    by (auto simp: to_bytes_def jdumps_def payload_def)
  have "jloads c (Doc (payload ix)) = Inr (payload ix)"
    using s n t by (simp add: jloads_def payload_def)
  with b show ?thesis by simp
qed

lemma song_roundtrip: "song_of_json (asdict s) = Inr s"
  by (simp add: song_of_json_def asdict_def field_or_def song_fields_def)

lemma norm_roundtrip: "norm_of_json (norm_json n) = Inr n"
  by (simp add: norm_of_json_def norm_json_def norm_field_def as_str_def)

lemma build_items: "build its = Inr ix \<Longrightarrow> items ix = its"
  by (auto simp: build_def bind_err_Inr_iff)

lemma from_payload:
  assumes "build (items ix) = Inr ix'"
  shows "bind_err (Inr (payload ix)) (\<lambda>p.
     bind_err (obj_get ''items'' p) (\<lambda>raw.
     bind_err (iter_json raw) (\<lambda>ds.
     bind_err (map_err song_of_json ds) (\<lambda>its.
     bind_err (build its) (\<lambda>idx.
     bind_err (obj_get ''norms'' p) (\<lambda>ns.
     bind_err (obj_get ''search_texts'' p) (\<lambda>ts.
     bind_err (stored_list norm_of_json ns) (\<lambda>ns'.
     bind_err (stored_list as_str ts) (\<lambda>ts'.
     Inr (idx\<lparr>norms := ns', search_texts := ts'\<rparr>)))))))))) =
   Inr (ix'\<lparr>norms := norms ix, search_texts := search_texts ix\<rparr>)"
proof -
  have a: "map_err song_of_json (map asdict (items ix)) = Inr (items ix)"
    by (rule map_err_roundtrip) (rule song_roundtrip)
  have b: "map_err norm_of_json (map norm_json (norms ix)) = Inr (norms ix)"
    by (rule map_err_roundtrip) (rule norm_roundtrip)
  have c: "map_err as_str (map (\<lambda>t. JVal (PStr t)) (search_texts ix)) = Inr (search_texts ix)"
    by (rule map_err_roundtrip) (simp add: as_str_def)
  have g1: "obj_get ''items'' (payload ix) = Inr (JArr (map asdict (items ix)))"
    by (simp add: obj_get_def payload_def)
  have g2: "obj_get ''norms'' (payload ix) = Inr (JArr (map norm_json (norms ix)))"
    by (simp add: obj_get_def payload_def)
  have g3: "obj_get ''search_texts'' (payload ix)
            = Inr (JArr (map (\<lambda>t. JVal (PStr t)) (search_texts ix)))"
    by (simp add: obj_get_def payload_def)
  show ?thesis
    by (simp add: g1 g2 g3 a b c assms iter_json_def stored_list_def)
qed

lemma from_to_bytes:
  assumes "build its = Inr ix" and "to_bytes c ix = Inr b" and "\<forall>s\<in>set its. song_kept c s"
  shows "from_bytes c b = Inr ix"
proof -
  have i: "items ix = its" by (rule build_items [OF assms(1)])
  from assms(3) i have "\<forall>s\<in>set (items ix). song_kept c s" by simp
  from to_bytes_kept [OF assms(2) this] have l: "jloads c b = Inr (payload ix)" by (rule conjunct2)
  from assms(1) i have "build (items ix) = Inr ix" by simp
  from from_payload [OF this] show ?thesis by (simp add: from_bytes_def l)
qed


text \<open>
  Claim C1. Deserializing the bytes that \<open>to_bytes\<close> produces for a built index gives an
  index with the same track records, the same normalized records and the same coarse
  texts, in the same order, provided that no field of a record is a scalar that the codec
  replaces (for \<^verbatim>\<open>orjson\<close> a float NaN or infinity) and none is NaN. The statement is
  for both codecs and for every index for which \<open>to_bytes\<close> returns bytes.
\<close>

theorem to_from_bytes_roundtrip:
  assumes "build its = Inr ix" and "to_bytes c ix = Inr b"
    and "\<forall>s\<in>set its. song_kept c s \<and> no_nan s"
  shows "\<exists>ix'. from_bytes c b = Inr ix' \<and> items ix' = items ix \<and> norms ix' = norms ix \<and>
               search_texts ix' = search_texts ix \<and> items ix' = its"
proof -
  from assms(3) have "\<forall>s\<in>set its. song_kept c s" by simp
  from from_to_bytes [OF assms(1,2) this] build_items [OF assms(1)] show ?thesis by simp
qed

theorem to_from_bytes_roundtrip_witness:
  "build [song_abc] = Inr built_abc \<and> to_bytes Orjson built_abc = Inr (Doc (payload built_abc)) \<and>
   song_kept Orjson song_abc \<and> no_nan song_abc \<and>
   (\<exists>ix'. from_bytes Orjson (Doc (payload built_abc)) = Inr ix' \<and> items ix' = [song_abc] \<and>
          norms ix' = [norm_abc])"
proof -
  have a: "build [song_abc] = Inr built_abc" by code_simp
  have b: "to_bytes Orjson built_abc = Inr (Doc (payload built_abc))" by code_simp
  have c: "song_kept Orjson song_abc" "no_nan song_abc" by code_simp+
  then have d: "\<forall>s\<in>set [song_abc]. song_kept Orjson s \<and> no_nan s" by simp
  from to_from_bytes_roundtrip [OF a b d] a b c show ?thesis by (auto simp: built_abc_def)
qed

text \<open>
  Without the proviso the records differ: with \<^verbatim>\<open>orjson\<close>, a record whose \<open>bpm\<close> is
  NaN, as \<^verbatim>\<open>load_songs\<close> stores for an empty CSV cell, is read back with \<open>bpm\<close>
  \<^verbatim>\<open>None\<close>.
\<close>

theorem roundtrip_replaces_nan:
  "build [song_nan] = Inr built_nan \<and>
   bind_err (to_bytes Orjson built_nan) (from_bytes Orjson) = Inr loaded_nan \<and>
   items loaded_nan \<noteq> items built_nan \<and>
   bpm (hd (items built_nan)) = PFloat NaN \<and> bpm (hd (items loaded_nan)) = PNone"
  by code_simp




section \<open>The convenience call on a blank query\<close>

text \<open>
  Claim C9. For a query that is empty or consists of whitespace only, \<open>search_index\<close>
  returns the empty list and leaves the file system as it was: no path is opened, whatever
  the limit, the threshold, the output mode and the index path.
\<close>

theorem search_index_blank:
  assumes "\<forall>c\<in>set query. is_space c"
  shows "search_index c W w query limit threshold as_dict index_path = (w, Inr [])"
  using assms by (simp add: search_index_def py_strip_blank)

theorem search_index_blank_witness:
  "is_space (CHR '' '') \<and>
   search_index Orjson indel_ratio no_files ''   '' 10 60 False ''songs.index'' = (no_files, Inr []) \<and>
   opened (fst (search_index Orjson indel_ratio no_files ''   '' 10 60 False ''songs.index'')) = []"
proof -
  have s: "is_space (CHR '' '')" by code_simp
  then have h: "\<forall>c\<in>set ''   ''. is_space c" by simp
  from search_index_blank [OF h, of Orjson indel_ratio no_files 10 60 False "''songs.index''"] s
  show ?thesis by (simp add: no_files_def)
qed

section \<open>Zero tempo and unquoted filter values\<close>

text \<open>
  Claim C4. \<open>bpm_n\<close> is the decimal string of the integer that \<open>bpm\<close> parses to, and empty
  only when \<open>bpm\<close> does not parse. The code gives the empty string for a record whose
  \<open>bpm\<close> is \<open>0\<close>, though \<open>to_int\<close> parses it: \<^verbatim>\<open>to_int(self.bpm) or ""\<close> takes the
  right operand for \<open>0\<close> as for \<^verbatim>\<open>None\<close>. The theorem evaluates the code there.
\<close>

theorem bpm_zero_gives_empty_text:
  "to_int (bpm song_zero) = Some 0 \<and>
   bind_err (normalized song_zero) (\<lambda>n. Inr (bpm_n n)) = Inr [] \<and>
   to_int (PStr ''0'') = Some 0 \<and> bpm_text (PStr ''0'') = [] \<and>
   bpm_text (PInt 120) = ''120''"
  by code_simp

text \<open>
  Claim C3. An unquoted filter value ends at the first whitespace after it and the text
  that follows is left for the later stages. The code's pattern for the value,
  \<^verbatim>\<open>[^\s][^']*\<close>, runs on to the next quote or to the end of the query: in
  \<^verbatim>\<open>artist:a-ha take on me\<close> the whole rest becomes the artist filter and no free text
  remains. The theorem evaluates the code there.
\<close>

theorem parse_query_unquoted_value_runs_on:
  "parse_query ''artist:a-ha take on me'' =
     Inr ([], None, no_filters\<lparr>f_artist := Some ''a-ha take on me''\<rparr>)"
  by code_simp

end
